theory Spec2Isabelle
  imports Complex_Main
begin

section \<open>The semantic highlight sidecar service (highlight-service.py)\<close>

text \<open>
  The service keeps one process-wide reference, \<^verbatim>\<open>_model\<close>, loads the model into it in
  the startup half of \<^verbatim>\<open>lifespan\<close>, clears it in the cleanup half, and answers two routes:
  \<^verbatim>\<open>POST /highlight\<close> and \<^verbatim>\<open>GET /health\<close>. The model, torch and the file system are
  external; they are parameters of the embedding (the record \<open>runtime\<close>). Python floats
  are only stored and forwarded by this layer, never computed with, and are modelled by
  \<^typ>\<open>real\<close>.
\<close>

subsection \<open>Data\<close>

text \<open>An exception travelling up the Python stack, with its message.\<close>

datatype py_exception = AttributeError string | External string

text \<open>The object that \<^verbatim>\<open>_model\<close> refers to, by identity; its internals are opaque here.\<close>

datatype model_ref = ModelRef nat

text \<open>\<^verbatim>\<open>class HighlightRequest(BaseModel)\<close>, lines 30-34.\<close>

record HighlightRequest =
  rq_question :: string
  rq_context :: string
  rq_threshold :: real
  rq_return_sentence_metrics :: bool

text \<open>
  A request body before validation: every field may be absent. The fields carry the types
  that \<^verbatim>\<open>HighlightRequest\<close> declares.
\<close>

record raw_request =
  raw_question :: "string option"
  raw_context :: "string option"
  raw_threshold :: "real option"
  raw_return_sentence_metrics :: "bool option"

text \<open>\<^verbatim>\<open>class HighlightResponse(BaseModel)\<close>, lines 37-40.\<close>

record HighlightResponse =
  highlighted_sentences :: "string list"
  compression_rate :: real
  sentence_probabilities :: "real list"

text \<open>
  The dict returned by \<^verbatim>\<open>_model.process\<close>, as the handler reads it: the three keys it
  looks up with \<^verbatim>\<open>result.get\<close>, each present (\<open>Some\<close>) or missing (\<open>None\<close>), with
  values of the types \<^verbatim>\<open>HighlightResponse\<close> declares for them. Other keys are never read.
\<close>

record score_result =
  res_highlighted_sentences :: "string list option"
  res_compression_rate :: "real option"
  res_sentence_probabilities :: "real list option"

text \<open>The dict returned by \<^verbatim>\<open>health\<close>, lines 100-104.\<close>

record health_info =
  status :: string
  model_loaded :: bool
  gpu_available :: bool

text \<open>Lines emitted through \<^verbatim>\<open>logger\<close>.\<close>

datatype level = INFO | ERROR

type_synonym log_line = "level \<times> string"

text \<open>
  The process-wide state: the global \<^verbatim>\<open>_model\<close> (line 27), \<^verbatim>\<open>app.state.model_path\<close>
  (unset until \<^verbatim>\<open>main\<close> assigns it) and the log written so far.
\<close>

record service_state =
  model :: "model_ref option"
  model_path :: "string option"
  log_lines :: "log_line list"

definition initial_state :: service_state where
  "initial_state = \<lparr>model = None, model_path = None, log_lines = []\<rparr>"

text \<open>
  What the code calls outside itself: \<^verbatim>\<open>os.path.exists\<close>,
  \<^verbatim>\<open>AutoModel.from_pretrained(path, trust_remote_code=True)\<close>,
  \<^verbatim>\<open>torch.cuda.is_available()\<close>, \<^verbatim>\<open>_model.cuda()\<close> and
  \<^verbatim>\<open>_model.process(question=, context=, threshold=, return_sentence_metrics=)\<close>.
  A call that raises returns \<open>Inl\<close>.
\<close>

record runtime =
  path_exists :: "string \<Rightarrow> bool"
  from_pretrained :: "string \<Rightarrow> py_exception + model_ref"
  cuda_is_available :: bool
  cuda :: "model_ref \<Rightarrow> py_exception + model_ref"
  process :: "model_ref \<Rightarrow> string \<Rightarrow> string \<Rightarrow> real \<Rightarrow> bool \<Rightarrow> py_exception + score_result"

text \<open>
  One invocation of the capability, with the arguments it receives, and what performing it
  yields.
\<close>

datatype capability_call = Process_call model_ref string string real bool

fun invoke :: "runtime \<Rightarrow> capability_call \<Rightarrow> py_exception + score_result" where
  "invoke rt (Process_call m q c t b) = process rt m q c t b"

subsection \<open>Logging\<close>

definition logger_info :: "string \<Rightarrow> service_state \<Rightarrow> service_state" where
  "logger_info msg st = st\<lparr>log_lines := log_lines st @ [(INFO, msg)]\<rparr>"

definition logger_error :: "string \<Rightarrow> service_state \<Rightarrow> service_state" where
  "logger_error msg st = st\<lparr>log_lines := log_lines st @ [(ERROR, msg)]\<rparr>"

subsection \<open>The lifecycle: \<^verbatim>\<open>lifespan\<close>, lines 43-63\<close>

text \<open>
  The part before \<^verbatim>\<open>yield\<close>. Reading \<^verbatim>\<open>app.state.model_path\<close> before \<^verbatim>\<open>main\<close> has
  set it raises \<^verbatim>\<open>AttributeError\<close>. The first assignment to \<^verbatim>\<open>_model\<close> (line 50) has
  happened when \<^verbatim>\<open>.cuda()\<close> is called, so a failure there leaves the reference set.
\<close>

definition lifespan_startup :: "runtime \<Rightarrow> service_state \<Rightarrow> service_state \<times> py_exception option" where
  "lifespan_startup rt st =
     (case model_path st of
        None \<Rightarrow> (st, Some (AttributeError ''model_path''))
      | Some p \<Rightarrow>
          (let st1 = logger_info (''Loading Zilliz semantic-highlight model from: '' @ p) st in
           case from_pretrained rt p of
             Inl e \<Rightarrow> (st1, Some e)
           | Inr m \<Rightarrow>
               (let st2 = st1\<lparr>model := Some m\<rparr> in
                if cuda_is_available rt then
                  (case cuda rt m of
                     Inl e \<Rightarrow> (st2, Some e)
                   | Inr m' \<Rightarrow> (logger_info ''Model loaded on GPU'' (st2\<lparr>model := Some m'\<rparr>), None))
                else (logger_info ''Model loaded on CPU'' st2, None))))"

text \<open>The part after \<^verbatim>\<open>yield\<close>, lines 61-63.\<close>

definition lifespan_cleanup :: "service_state \<Rightarrow> service_state" where
  "lifespan_cleanup st = logger_info ''Model unloaded'' (st\<lparr>model := None\<rparr>)"

subsection \<open>The handlers\<close>

text \<open>
  \<^verbatim>\<open>highlight\<close>, lines 73-94. The result is the state after the call, the capability
  invocations made, and either the exception that left the handler or the response it
  returned.
\<close>

definition highlight ::
  "runtime \<Rightarrow> service_state \<Rightarrow> HighlightRequest \<Rightarrow>
     service_state \<times> capability_call list \<times> (py_exception + HighlightResponse)" where
  "highlight rt st req =
     (case model st of
        None \<Rightarrow>
          (st, [], Inr \<lparr>highlighted_sentences = [], compression_rate = 0.0,
                        sentence_probabilities = []\<rparr>)
      | Some m \<Rightarrow>
          (let call = Process_call m (rq_question req) (rq_context req) (rq_threshold req)
                        (rq_return_sentence_metrics req) in
           case invoke rt call of
             Inl e \<Rightarrow> (st, [call], Inl e)
           | Inr result \<Rightarrow>
               (st, [call],
                Inr \<lparr>highlighted_sentences =
                       (case res_highlighted_sentences result of None \<Rightarrow> [] | Some v \<Rightarrow> v),
                     compression_rate =
                       (case res_compression_rate result of None \<Rightarrow> 0.0 | Some v \<Rightarrow> v),
                     sentence_probabilities =
                       (case res_sentence_probabilities result of None \<Rightarrow> [] | Some v \<Rightarrow> v)\<rparr>)))"

text \<open>\<^verbatim>\<open>health\<close>, lines 97-104.\<close>

definition health :: "runtime \<Rightarrow> service_state \<Rightarrow> service_state \<times> health_info" where
  "health rt st =
     (st, \<lparr>status = ''ok'', model_loaded = (model st \<noteq> None),
           gpu_available = cuda_is_available rt\<rparr>)"

subsection \<open>Request validation and routing\<close>

text \<open>
  Building a \<^verbatim>\<open>HighlightRequest\<close> from a body: \<^verbatim>\<open>Field(...)\<close> makes \<^verbatim>\<open>question\<close> and
  \<^verbatim>\<open>context\<close> required, \<^verbatim>\<open>Field(0.5, ...)\<close> and \<^verbatim>\<open>Field(True, ...)\<close> give the other two
  their defaults. A body lacking a required field is refused with the names of the
  missing fields.
\<close>

definition HighlightRequest_init :: "raw_request \<Rightarrow> string list + HighlightRequest" where
  "HighlightRequest_init raw =
     (case (raw_question raw, raw_context raw) of
        (Some q, Some c) \<Rightarrow>
          Inr \<lparr>rq_question = q, rq_context = c,
               rq_threshold = (case raw_threshold raw of None \<Rightarrow> 0.5 | Some t \<Rightarrow> t),
               rq_return_sentence_metrics =
                 (case raw_return_sentence_metrics raw of None \<Rightarrow> True | Some b \<Rightarrow> b)\<rparr>
      | (q, c) \<Rightarrow>
          Inl ((if q = None then [''question''] else []) @
               (if c = None then [''context''] else [])))"

text \<open>
  What the framework sends for a route declared without a status code (lines 73 and 97):
  200 with the value the handler returned, 422 when the body does not validate (the
  handler is not entered), 500 when an exception leaves the handler.
\<close>

datatype body = Highlight_body HighlightResponse | Health_body health_info

datatype reply = Reply nat body | Unprocessable "string list" | Internal_error py_exception

fun status_code :: "reply \<Rightarrow> nat" where
  "status_code (Reply n _) = n"
| "status_code (Unprocessable _) = 422"
| "status_code (Internal_error _) = 500"

definition post_highlight ::
  "runtime \<Rightarrow> service_state \<Rightarrow> raw_request \<Rightarrow> service_state \<times> capability_call list \<times> reply" where
  "post_highlight rt st raw =
     (case HighlightRequest_init raw of
        Inl missing \<Rightarrow> (st, [], Unprocessable missing)
      | Inr req \<Rightarrow>
          (case highlight rt st req of
             (st', calls, Inl e) \<Rightarrow> (st', calls, Internal_error e)
           | (st', calls, Inr resp) \<Rightarrow> (st', calls, Reply 200 (Highlight_body resp))))"

definition get_health :: "runtime \<Rightarrow> service_state \<Rightarrow> service_state \<times> capability_call list \<times> reply" where
  "get_health rt st = (case health rt st of (st', info) \<Rightarrow> (st', [], Reply 200 (Health_body info)))"

text \<open>Requests are served one after the other against the shared state.\<close>

datatype request = POST_highlight raw_request | GET_health

fun handle :: "runtime \<Rightarrow> service_state \<Rightarrow> request \<Rightarrow> service_state \<times> capability_call list \<times> reply" where
  "handle rt st (POST_highlight raw) = post_highlight rt st raw"
| "handle rt st GET_health = get_health rt st"

fun serve :: "runtime \<Rightarrow> service_state \<Rightarrow> request list \<Rightarrow> service_state \<times> reply list" where
  "serve rt st [] = (st, [])"
| "serve rt st (r # rs) =
     (case handle rt st r of
        (st', _, rep) \<Rightarrow> (case serve rt st' rs of (st'', reps) \<Rightarrow> (st'', rep # reps)))"

subsection \<open>Startup: \<^verbatim>\<open>main\<close>, lines 107-128\<close>

text \<open>\<^verbatim>\<open>str\<close> of an integer, as the f-string on line 127 formats the port.\<close>

fun str_nat :: "nat \<Rightarrow> string" where
  "str_nat n =
     (if n < 10 then [char_of (48 + n)]
      else str_nat (n div 10) @ [char_of (48 + n mod 10)])"

definition str_int :: "int \<Rightarrow> string" where
  "str_int i = (if i < 0 then ''-'' @ str_nat (nat (- i)) else str_nat (nat i))"

text \<open>\<^verbatim>\<open>os.path.join\<close> (POSIX), used for the default of \<^verbatim>\<open>--model-path\<close>.\<close>

fun os_path_join :: "string \<Rightarrow> string list \<Rightarrow> string" where
  "os_path_join path [] = path"
| "os_path_join path (b # bs) =
     os_path_join
       (if take 1 b = ''/'' then b
        else if path = [] \<or> last path = CHR ''/'' then path @ b
        else path @ ''/'' @ b) bs"

text \<open>The command line, each option given or not, and the namespace \<^verbatim>\<open>parse_args\<close> returns.\<close>

record raw_args =
  opt_port :: "int option"
  opt_model_path :: "string option"
  opt_host :: "string option"

record args =
  port :: int
  args_model_path :: string
  host :: string

text \<open>The parser of lines 108-117; \<open>script_dir\<close> is \<^verbatim>\<open>os.path.dirname(__file__)\<close>.\<close>

definition parse_args :: "string \<Rightarrow> raw_args \<Rightarrow> args" where
  "parse_args script_dir raw =
     \<lparr>port = (case opt_port raw of None \<Rightarrow> 8079 | Some p \<Rightarrow> p),
      args_model_path =
        (case opt_model_path raw of
           None \<Rightarrow> os_path_join script_dir [''models'', ''semantic-highlight-bilingual-v1'']
         | Some p \<Rightarrow> p),
      host = (case opt_host raw of None \<Rightarrow> ''127.0.0.1'' | Some h \<Rightarrow> h)\<rparr>"

text \<open>How \<^verbatim>\<open>main\<close> ends: \<^verbatim>\<open>sys.exit(code)\<close>, or the call \<^verbatim>\<open>uvicorn.run(app, host=, port=)\<close>.\<close>

datatype main_outcome = Sys_exit int | Uvicorn_run string int

definition main :: "runtime \<Rightarrow> string \<Rightarrow> raw_args \<Rightarrow> service_state \<Rightarrow> service_state \<times> main_outcome" where
  "main rt script_dir argv st =
     (let a = parse_args script_dir argv in
      if \<not> path_exists rt (args_model_path a) then
        (logger_error ''Download it first: hf download zilliz/semantic-highlight-bilingual-v1''
           (logger_error (''Model not found at: '' @ args_model_path a) st),
         Sys_exit 1)
      else
        (logger_info (''Starting Titan Highlight Service on '' @ host a @ '':'' @ str_int (port a))
           (st\<lparr>model_path := Some (args_model_path a)\<rparr>),
         Uvicorn_run (host a) (port a)))"

subsection \<open>Sample environments\<close>

text \<open>
  Two environments for concrete runs. In both the model directory exists at one path and
  loading succeeds. The first has a capability that answers every call with a fixed
  \<open>outcome\<close>; the second echoes its arguments into the result, leaves
  \<^verbatim>\<open>sentence_probabilities\<close> out when no metrics are asked for, and raises on an empty
  context.
\<close>

definition stub_runtime :: "(py_exception + score_result) \<Rightarrow> runtime" where
  "stub_runtime outcome =
     \<lparr>path_exists = (\<lambda>p. p = ''/srv/models/semantic-highlight-bilingual-v1''),
      from_pretrained = (\<lambda>p. Inr (ModelRef 0)),
      cuda_is_available = False,
      cuda = (\<lambda>m. Inr m),
      process = (\<lambda>m q c t b. outcome)\<rparr>"

definition echo_runtime :: runtime where
  "echo_runtime =
     \<lparr>path_exists = (\<lambda>p. p = ''/srv/models/semantic-highlight-bilingual-v1''),
      from_pretrained = (\<lambda>p. Inr (ModelRef 0)),
      cuda_is_available = True,
      cuda = (\<lambda>m. Inr m),
      process = (\<lambda>m q c t b.
        if c = [] then Inl (External ''empty context'')
        else Inr \<lparr>res_highlighted_sentences = Some [q, c],
                  res_compression_rate = Some t,
                  res_sentence_probabilities = (if b then Some [t] else None)\<rparr>)\<rparr>"

definition loaded_state :: service_state where
  "loaded_state =
     \<lparr>model = Some (ModelRef 0),
      model_path = Some ''/srv/models/semantic-highlight-bilingual-v1'',
      log_lines = []\<rparr>"

section \<open>Properties\<close>

subsection \<open>The handlers and the shared state\<close>

lemma highlight_frame: "fst (highlight rt st req) = st"
  by (simp add: highlight_def Let_def split: option.split sum.split)

lemma post_highlight_frame: "fst (post_highlight rt st raw) = st"
proof (cases "HighlightRequest_init raw")
  case (Inl missing)
  then show ?thesis by (simp add: post_highlight_def)
next
  case (Inr req)
  obtain s cs out where h: "highlight rt st req = (s, cs, out)"
    by (cases "highlight rt st req") auto
  with highlight_frame [of rt st req] have "s = st" by simp
  with Inr h show ?thesis
    by (cases out) (simp_all add: post_highlight_def)
qed

lemma get_health_frame: "fst (get_health rt st) = st"
  by (simp add: get_health_def health_def)

lemma handle_frame: "fst (handle rt st r) = st"
  by (cases r) (simp_all add: post_highlight_frame get_health_frame)

lemma serve_frame: "fst (serve rt st rs) = st"
proof (induction rs)
  case Nil
  show ?case by simp
next
  case (Cons r rs)
  obtain s cs rep where h: "handle rt st r = (s, cs, rep)"
    by (cases "handle rt st r") auto
  with handle_frame [of rt st r] have s: "s = st" by simp
  obtain s' reps where t: "serve rt st rs = (s', reps)"
    by (cases "serve rt st rs") auto
  with Cons.IH have "s' = st" by simp
  with h s t show ?case by simp
qed

lemma startup_success_ready:
  "lifespan_startup rt st = (st', None) \<Longrightarrow> model st' \<noteq> None"
  by (auto simp: lifespan_startup_def logger_info_def Let_def
           split: option.splits sum.splits if_splits)

lemma cleanup_model: "model (lifespan_cleanup st) = None"
  by (simp add: lifespan_cleanup_def logger_info_def)

subsection \<open>The claims\<close>

text \<open>
  Claim C1. With no model held (\<^verbatim>\<open>_model is None\<close>), \<^verbatim>\<open>highlight\<close> does not call the
  capability and returns the degraded response: no highlighted sentences, compression
  rate 0.0, no probabilities. The route answers it with status 200. The state is as before.
\<close>

theorem highlight_model_absent:
  assumes "model st = None"
  shows "highlight rt st req =
           (st, [], Inr \<lparr>highlighted_sentences = [], compression_rate = 0.0,
                         sentence_probabilities = []\<rparr>) \<and>
         (HighlightRequest_init raw = Inr req \<longrightarrow>
            post_highlight rt st raw =
              (st, [], Reply 200 (Highlight_body
                 \<lparr>highlighted_sentences = [], compression_rate = 0.0,
                  sentence_probabilities = []\<rparr>)))"
  using assms by (simp add: highlight_def post_highlight_def)

theorem highlight_model_absent_witness:
  "model initial_state = None \<and>
   HighlightRequest_init
     \<lparr>raw_question = Some ''why'', raw_context = Some ''Because. Or not.'',
      raw_threshold = None, raw_return_sentence_metrics = None\<rparr>
     = Inr \<lparr>rq_question = ''why'', rq_context = ''Because. Or not.'', rq_threshold = 0.5,
            rq_return_sentence_metrics = True\<rparr> \<and>
   highlight echo_runtime initial_state
     \<lparr>rq_question = ''why'', rq_context = ''Because. Or not.'', rq_threshold = 0.5,
      rq_return_sentence_metrics = True\<rparr>
     = (initial_state, [],
        Inr \<lparr>highlighted_sentences = [], compression_rate = 0, sentence_probabilities = []\<rparr>) \<and>
   post_highlight echo_runtime initial_state
     \<lparr>raw_question = Some ''why'', raw_context = Some ''Because. Or not.'',
      raw_threshold = None, raw_return_sentence_metrics = None\<rparr>
     = (initial_state, [],
        Reply 200 (Highlight_body
          \<lparr>highlighted_sentences = [], compression_rate = 0, sentence_probabilities = []\<rparr>))"
  using highlight_model_absent [of initial_state echo_runtime
     "\<lparr>rq_question = ''why'', rq_context = ''Because. Or not.'', rq_threshold = 0.5,
      rq_return_sentence_metrics = True\<rparr>"
     "\<lparr>raw_question = Some ''why'', raw_context = Some ''Because. Or not.'',
      raw_threshold = None, raw_return_sentence_metrics = None\<rparr>"]
  by (simp add: initial_state_def HighlightRequest_init_def)

text \<open>
  Claim C2. With a model held and a capability call that returns a result, the handler
  returns a response, not an exception, built from that result key by key: a key that is
  present gives its value, a key that is missing gives its default, \<open>[]\<close> for the
  highlighted sentences, 0.0 for the compression rate, \<open>[]\<close> for the probabilities,
  whatever the other keys are. The capability has been called once, the state is as
  before, and the route answers a validated body with status 200 and that response.
\<close>

theorem highlight_fills_missing_keys:
  assumes "model st = Some m"
    and "process rt m (rq_question req) (rq_context req) (rq_threshold req)
           (rq_return_sentence_metrics req) = Inr result"
  shows "highlight rt st req =
           (st,
            [Process_call m (rq_question req) (rq_context req) (rq_threshold req)
               (rq_return_sentence_metrics req)],
            Inr \<lparr>highlighted_sentences =
                   (case res_highlighted_sentences result of None \<Rightarrow> [] | Some v \<Rightarrow> v),
                 compression_rate =
                   (case res_compression_rate result of None \<Rightarrow> 0.0 | Some v \<Rightarrow> v),
                 sentence_probabilities =
                   (case res_sentence_probabilities result of None \<Rightarrow> [] | Some v \<Rightarrow> v)\<rparr>) \<and>
         (\<exists>resp. snd (snd (highlight rt st req)) = Inr resp \<and>
           (res_highlighted_sentences result = None \<longrightarrow> highlighted_sentences resp = []) \<and>
           (res_compression_rate result = None \<longrightarrow> compression_rate resp = 0.0) \<and>
           (res_sentence_probabilities result = None \<longrightarrow> sentence_probabilities resp = []) \<and>
           (\<forall>v. res_highlighted_sentences result = Some v \<longrightarrow> highlighted_sentences resp = v) \<and>
           (\<forall>v. res_compression_rate result = Some v \<longrightarrow> compression_rate resp = v) \<and>
           (\<forall>v. res_sentence_probabilities result = Some v \<longrightarrow>
                 sentence_probabilities resp = v)) \<and>
         (HighlightRequest_init raw = Inr req \<longrightarrow>
            snd (snd (post_highlight rt st raw)) =
              Reply 200 (Highlight_body
                \<lparr>highlighted_sentences =
                   (case res_highlighted_sentences result of None \<Rightarrow> [] | Some v \<Rightarrow> v),
                 compression_rate =
                   (case res_compression_rate result of None \<Rightarrow> 0.0 | Some v \<Rightarrow> v),
                 sentence_probabilities =
                   (case res_sentence_probabilities result of None \<Rightarrow> [] | Some v \<Rightarrow> v)\<rparr>))"
proof (intro conjI impI)
  let ?call = "Process_call m (rq_question req) (rq_context req) (rq_threshold req)
               (rq_return_sentence_metrics req)"
  let ?resp = "\<lparr>highlighted_sentences =
                   (case res_highlighted_sentences result of None \<Rightarrow> [] | Some v \<Rightarrow> v),
                 compression_rate =
                   (case res_compression_rate result of None \<Rightarrow> 0.0 | Some v \<Rightarrow> v),
                 sentence_probabilities =
                   (case res_sentence_probabilities result of None \<Rightarrow> [] | Some v \<Rightarrow> v)\<rparr>"
  show h: "highlight rt st req = (st, [?call], Inr ?resp)"
    using assms by (simp add: highlight_def)
  show "\<exists>resp. snd (snd (highlight rt st req)) = Inr resp \<and>
           (res_highlighted_sentences result = None \<longrightarrow> highlighted_sentences resp = []) \<and>
           (res_compression_rate result = None \<longrightarrow> compression_rate resp = 0.0) \<and>
           (res_sentence_probabilities result = None \<longrightarrow> sentence_probabilities resp = []) \<and>
           (\<forall>v. res_highlighted_sentences result = Some v \<longrightarrow> highlighted_sentences resp = v) \<and>
           (\<forall>v. res_compression_rate result = Some v \<longrightarrow> compression_rate resp = v) \<and>
           (\<forall>v. res_sentence_probabilities result = Some v \<longrightarrow>
                 sentence_probabilities resp = v)"
    by (simp add: h)
  show "snd (snd (post_highlight rt st raw)) = Reply 200 (Highlight_body ?resp)"
    if "HighlightRequest_init raw = Inr req"
    using that by (simp add: post_highlight_def h)
qed

theorem highlight_fills_missing_keys_witness:
  "highlight
      (stub_runtime (Inr \<lparr>res_highlighted_sentences = None, res_compression_rate = None,
                          res_sentence_probabilities = None\<rparr>))
      loaded_state
      \<lparr>rq_question = ''why'', rq_context = ''Because. Or not.'', rq_threshold = 0.5,
       rq_return_sentence_metrics = True\<rparr>
   = (loaded_state, [Process_call (ModelRef 0) ''why'' ''Because. Or not.'' 0.5 True],
      Inr \<lparr>highlighted_sentences = [], compression_rate = 0, sentence_probabilities = []\<rparr>) \<and>
   highlight
      (stub_runtime (Inr \<lparr>res_highlighted_sentences = None, res_compression_rate = None,
                          res_sentence_probabilities = Some [0.9, 0.1]\<rparr>))
      loaded_state
      \<lparr>rq_question = ''why'', rq_context = ''Because. Or not.'', rq_threshold = 0.5,
       rq_return_sentence_metrics = True\<rparr>
   = (loaded_state, [Process_call (ModelRef 0) ''why'' ''Because. Or not.'' 0.5 True],
      Inr \<lparr>highlighted_sentences = [], compression_rate = 0,
           sentence_probabilities = [0.9, 0.1]\<rparr>) \<and>
   highlight echo_runtime loaded_state
      \<lparr>rq_question = ''why'', rq_context = ''Because. Or not.'', rq_threshold = 0.5,
       rq_return_sentence_metrics = False\<rparr>
   = (loaded_state, [Process_call (ModelRef 0) ''why'' ''Because. Or not.'' 0.5 False],
      Inr \<lparr>highlighted_sentences = [''why'', ''Because. Or not.''], compression_rate = 0.5,
           sentence_probabilities = []\<rparr>) \<and>
   snd (snd (post_highlight echo_runtime loaded_state
      \<lparr>raw_question = Some ''why'', raw_context = Some ''Because. Or not.'',
       raw_threshold = None, raw_return_sentence_metrics = Some False\<rparr>))
   = Reply 200 (Highlight_body
       \<lparr>highlighted_sentences = [''why'', ''Because. Or not.''], compression_rate = 0.5,
        sentence_probabilities = []\<rparr>)"
proof -
  let ?req = "\<lparr>rq_question = ''why'', rq_context = ''Because. Or not.'', rq_threshold = 0.5,
       rq_return_sentence_metrics = True\<rparr>"
  let ?req' = "\<lparr>rq_question = ''why'', rq_context = ''Because. Or not.'', rq_threshold = 0.5,
       rq_return_sentence_metrics = False\<rparr>"
  let ?raw' = "\<lparr>raw_question = Some ''why'', raw_context = Some ''Because. Or not.'',
       raw_threshold = None :: real option, raw_return_sentence_metrics = Some False\<rparr>"
  let ?empty = "\<lparr>res_highlighted_sentences = None, res_compression_rate = None,
                 res_sentence_probabilities = None\<rparr>"
  let ?probs = "\<lparr>res_highlighted_sentences = None, res_compression_rate = None,
                 res_sentence_probabilities = Some [0.9, 0.1 :: real]\<rparr>"
  let ?echo = "\<lparr>res_highlighted_sentences = Some [''why'', ''Because. Or not.''],
                res_compression_rate = Some (0.5 :: real), res_sentence_probabilities = None\<rparr>"
  have m: "model loaded_state = Some (ModelRef 0)"
    by (simp add: loaded_state_def)
  have p1: "process (stub_runtime (Inr ?empty)) (ModelRef 0) (rq_question ?req) (rq_context ?req)
              (rq_threshold ?req) (rq_return_sentence_metrics ?req) = Inr ?empty"
    by (simp add: stub_runtime_def)
  have p2: "process (stub_runtime (Inr ?probs)) (ModelRef 0) (rq_question ?req) (rq_context ?req)
              (rq_threshold ?req) (rq_return_sentence_metrics ?req) = Inr ?probs"
    by (simp add: stub_runtime_def)
  have p3: "process echo_runtime (ModelRef 0) (rq_question ?req') (rq_context ?req')
              (rq_threshold ?req') (rq_return_sentence_metrics ?req') = Inr ?echo"
    by (simp add: echo_runtime_def)
  have v: "HighlightRequest_init ?raw' = Inr ?req'"
    by (simp add: HighlightRequest_init_def)
  have a: "highlight (stub_runtime (Inr ?empty)) loaded_state ?req
     = (loaded_state, [Process_call (ModelRef 0) ''why'' ''Because. Or not.'' 0.5 True],
        Inr \<lparr>highlighted_sentences = [], compression_rate = 0, sentence_probabilities = []\<rparr>)"
    using highlight_fills_missing_keys [OF m p1] by simp
  have b: "highlight (stub_runtime (Inr ?probs)) loaded_state ?req
     = (loaded_state, [Process_call (ModelRef 0) ''why'' ''Because. Or not.'' 0.5 True],
        Inr \<lparr>highlighted_sentences = [], compression_rate = 0,
             sentence_probabilities = [0.9, 0.1]\<rparr>)"
    using highlight_fills_missing_keys [OF m p2] by simp
  have c: "highlight echo_runtime loaded_state ?req'
     = (loaded_state, [Process_call (ModelRef 0) ''why'' ''Because. Or not.'' 0.5 False],
        Inr \<lparr>highlighted_sentences = [''why'', ''Because. Or not.''], compression_rate = 0.5,
             sentence_probabilities = []\<rparr>)"
    using highlight_fills_missing_keys [OF m p3] by simp
  have d: "snd (snd (post_highlight echo_runtime loaded_state ?raw'))
     = Reply 200 (Highlight_body
         \<lparr>highlighted_sentences = [''why'', ''Because. Or not.''], compression_rate = 0.5,
          sentence_probabilities = []\<rparr>)"
    using highlight_fills_missing_keys [OF m p3, of ?raw'] v by simp
  from a b c d show ?thesis by simp
qed

text \<open>
  Claim C3. In every state \<^verbatim>\<open>/health\<close> is answered with status 200 and
  \<^verbatim>\<open>status: "ok"\<close>, and \<^verbatim>\<open>model_loaded\<close> says whether \<^verbatim>\<open>_model\<close> is set: false in the
  initial state, true after a startup that succeeded and after any requests served since,
  false after the cleanup.
\<close>

theorem health_reports_model_state:
  "get_health rt st =
     (st, [], Reply 200 (Health_body \<lparr>status = ''ok'', model_loaded = (model st \<noteq> None),
                                       gpu_available = cuda_is_available rt\<rparr>)) \<and>
   status_code (snd (snd (get_health rt st))) = 200 \<and>
   \<not> model_loaded (snd (health rt initial_state)) \<and>
   (lifespan_startup rt st = (st', None) \<longrightarrow>
      model_loaded (snd (health rt st')) \<and>
      model_loaded (snd (health rt (fst (serve rt st' rs))))) \<and>
   \<not> model_loaded (snd (health rt (lifespan_cleanup st)))"
proof -
  have a: "get_health rt st =
     (st, [], Reply 200 (Health_body \<lparr>status = ''ok'', model_loaded = (model st \<noteq> None),
                                       gpu_available = cuda_is_available rt\<rparr>))"
    by (simp add: get_health_def health_def)
  have b: "\<not> model_loaded (snd (health rt initial_state))"
    by (simp add: health_def initial_state_def)
  have c: "model_loaded (snd (health rt st')) \<and>
      model_loaded (snd (health rt (fst (serve rt st' rs))))"
    if "lifespan_startup rt st = (st', None)"
    using startup_success_ready [OF that] by (simp add: health_def serve_frame)
  have d: "\<not> model_loaded (snd (health rt (lifespan_cleanup st)))"
    by (simp add: health_def cleanup_model)
  from a b c d show ?thesis by simp
qed

theorem health_reports_model_state_witness:
  "lifespan_startup echo_runtime (loaded_state\<lparr>model := None\<rparr>)
     = (\<lparr>model = Some (ModelRef 0),
         model_path = Some ''/srv/models/semantic-highlight-bilingual-v1'',
         log_lines =
           [(INFO, ''Loading Zilliz semantic-highlight model from: /srv/models/semantic-highlight-bilingual-v1''),
            (INFO, ''Model loaded on GPU'')]\<rparr>, None) \<and>
   model_loaded (snd (health echo_runtime
       \<lparr>model = Some (ModelRef 0),
         model_path = Some ''/srv/models/semantic-highlight-bilingual-v1'',
         log_lines =
           [(INFO, ''Loading Zilliz semantic-highlight model from: /srv/models/semantic-highlight-bilingual-v1''),
            (INFO, ''Model loaded on GPU'')]\<rparr>)) \<and>
   \<not> model_loaded (snd (health echo_runtime (lifespan_cleanup loaded_state)))"
proof -
  let ?st' = "\<lparr>model = Some (ModelRef 0),
         model_path = Some ''/srv/models/semantic-highlight-bilingual-v1'',
         log_lines =
           [(INFO, ''Loading Zilliz semantic-highlight model from: /srv/models/semantic-highlight-bilingual-v1''),
            (INFO, ''Model loaded on GPU'')]\<rparr>"
  have s: "lifespan_startup echo_runtime (loaded_state\<lparr>model := None\<rparr>) = (?st', None)"
    by (simp add: lifespan_startup_def loaded_state_def echo_runtime_def logger_info_def)
  from health_reports_model_state [of echo_runtime "loaded_state\<lparr>model := None\<rparr>" ?st' "[]"] s
  have "model_loaded (snd (health echo_runtime ?st'))"
    by blast
  moreover from health_reports_model_state [of echo_runtime loaded_state ?st' "[]"]
  have "\<not> model_loaded (snd (health echo_runtime (lifespan_cleanup loaded_state)))"
    by blast
  ultimately show ?thesis using s by simp
qed

text \<open>
  Claim C4. With a model held, a result that has all three keys is returned with the
  values it carries, and the route answers with status 200 and exactly that payload.
\<close>

theorem highlight_returns_full_result_unchanged:
  assumes "model st = Some m"
    and "process rt m (rq_question req) (rq_context req) (rq_threshold req)
           (rq_return_sentence_metrics req)
         = Inr \<lparr>res_highlighted_sentences = Some hs, res_compression_rate = Some cr,
                res_sentence_probabilities = Some sp\<rparr>"
  shows "snd (snd (highlight rt st req))
           = Inr \<lparr>highlighted_sentences = hs, compression_rate = cr,
                  sentence_probabilities = sp\<rparr> \<and>
         (HighlightRequest_init raw = Inr req \<longrightarrow>
            snd (snd (post_highlight rt st raw))
              = Reply 200 (Highlight_body \<lparr>highlighted_sentences = hs, compression_rate = cr,
                                            sentence_probabilities = sp\<rparr>))"
  using assms by (simp add: highlight_def post_highlight_def)

theorem highlight_returns_full_result_unchanged_witness:
  "snd (snd (post_highlight
      (stub_runtime (Inr \<lparr>res_highlighted_sentences = Some [''A.'', ''B.''],
                          res_compression_rate = Some 0.5,
                          res_sentence_probabilities = Some [0.9, 0.1]\<rparr>))
      loaded_state
      \<lparr>raw_question = Some ''why'', raw_context = Some ''A. B. C. D.'',
       raw_threshold = Some 0.5, raw_return_sentence_metrics = None\<rparr>))
   = Reply 200 (Highlight_body \<lparr>highlighted_sentences = [''A.'', ''B.''],
        compression_rate = 0.5, sentence_probabilities = [0.9, 0.1]\<rparr>)"
proof -
  let ?res = "\<lparr>res_highlighted_sentences = Some [''A.'', ''B.''],
                res_compression_rate = Some (0.5::real),
                res_sentence_probabilities = Some [0.9, 0.1::real]\<rparr>"
  let ?req = "\<lparr>rq_question = ''why'', rq_context = ''A. B. C. D.'', rq_threshold = 0.5,
       rq_return_sentence_metrics = True\<rparr>"
  let ?raw = "\<lparr>raw_question = Some ''why'', raw_context = Some ''A. B. C. D.'',
       raw_threshold = Some 0.5, raw_return_sentence_metrics = None\<rparr>"
  have m: "model loaded_state = Some (ModelRef 0)"
    by (simp add: loaded_state_def)
  have p: "process (stub_runtime (Inr ?res)) (ModelRef 0) (rq_question ?req) (rq_context ?req)
             (rq_threshold ?req) (rq_return_sentence_metrics ?req) = Inr ?res"
    by (simp add: stub_runtime_def)
  have v: "HighlightRequest_init ?raw = Inr ?req"
    by (simp add: HighlightRequest_init_def)
  from highlight_returns_full_result_unchanged [OF m p, of ?raw] v
  show ?thesis by simp
qed

text \<open>
  Claim C5. When the model path does not exist, \<^verbatim>\<open>main\<close> logs two error lines, the second
  telling how to download the model, and ends in \<^verbatim>\<open>sys.exit\<close> with a non-zero code;
  it does not reach \<^verbatim>\<open>uvicorn.run\<close>, and \<^verbatim>\<open>_model\<close> and \<^verbatim>\<open>app.state.model_path\<close> are
  untouched. (The options are taken as \<^verbatim>\<open>parse_args\<close> accepts them; a command line that
  argparse itself refuses ends before line 119.)
\<close>

theorem main_exits_when_model_missing:
  assumes "\<not> path_exists rt (args_model_path (parse_args script_dir argv))"
  shows "(\<exists>code. snd (main rt script_dir argv st) = Sys_exit code \<and> code \<noteq> 0) \<and>
         snd (main rt script_dir argv st) = Sys_exit 1 \<and>
         snd (main rt script_dir argv st) \<noteq> Uvicorn_run h p \<and>
         log_lines (fst (main rt script_dir argv st)) =
           log_lines st @
             [(ERROR, ''Model not found at: '' @ args_model_path (parse_args script_dir argv)),
              (ERROR, ''Download it first: hf download zilliz/semantic-highlight-bilingual-v1'')] \<and>
         model (fst (main rt script_dir argv st)) = model st \<and>
         model_path (fst (main rt script_dir argv st)) = model_path st"
  using assms by (simp add: main_def Let_def logger_error_def)

theorem main_exits_when_model_missing_witness:
  "\<not> path_exists echo_runtime
       (args_model_path (parse_args ''/opt/titan''
          \<lparr>opt_port = None, opt_model_path = None, opt_host = None\<rparr>)) \<and>
   main echo_runtime ''/opt/titan''
     \<lparr>opt_port = None, opt_model_path = None, opt_host = None\<rparr> initial_state
   = (\<lparr>model = None, model_path = None,
       log_lines =
         [(ERROR, ''Model not found at: /opt/titan/models/semantic-highlight-bilingual-v1''),
          (ERROR, ''Download it first: hf download zilliz/semantic-highlight-bilingual-v1'')]\<rparr>,
      Sys_exit 1)"
proof -
  let ?argv = "\<lparr>opt_port = None, opt_model_path = None, opt_host = None\<rparr>"
  have n: "\<not> path_exists echo_runtime (args_model_path (parse_args ''/opt/titan'' ?argv))"
    by (simp add: parse_args_def echo_runtime_def)
  have p: "args_model_path (parse_args ''/opt/titan'' ?argv)
             = ''/opt/titan/models/semantic-highlight-bilingual-v1''"
    by (simp add: parse_args_def)
  obtain s out where m: "main echo_runtime ''/opt/titan'' ?argv initial_state = (s, out)"
    by (cases "main echo_runtime ''/opt/titan'' ?argv initial_state") auto
  from main_exits_when_model_missing [OF n, of initial_state] m p
  have "out = Sys_exit 1" and "model s = None" and "model_path s = None"
    and "log_lines s =
         [(ERROR, ''Model not found at: /opt/titan/models/semantic-highlight-bilingual-v1''),
          (ERROR, ''Download it first: hf download zilliz/semantic-highlight-bilingual-v1'')]"
    by (simp_all add: initial_state_def)
  then have "(s, out) = (\<lparr>model = None, model_path = None,
       log_lines =
         [(ERROR, ''Model not found at: /opt/titan/models/semantic-highlight-bilingual-v1''),
          (ERROR, ''Download it first: hf download zilliz/semantic-highlight-bilingual-v1'')]\<rparr>,
      Sys_exit 1)"
    by (cases s) simp
  with n m show ?thesis by simp
qed

text \<open>
  Claim C6. With a model held, when the capability call raises, the same exception leaves
  the handler, the capability has been called exactly once, the state (the held reference
  included) is as before, and the route answers with a server error.
\<close>

theorem highlight_propagates_exception:
  assumes "model st = Some m"
    and "process rt m (rq_question req) (rq_context req) (rq_threshold req)
           (rq_return_sentence_metrics req) = Inl e"
  shows "highlight rt st req =
           (st, [Process_call m (rq_question req) (rq_context req) (rq_threshold req)
                   (rq_return_sentence_metrics req)], Inl e) \<and>
         (HighlightRequest_init raw = Inr req \<longrightarrow>
            post_highlight rt st raw =
              (st, [Process_call m (rq_question req) (rq_context req) (rq_threshold req)
                      (rq_return_sentence_metrics req)], Internal_error e))"
  using assms by (simp add: highlight_def post_highlight_def)

theorem highlight_propagates_exception_witness:
  "post_highlight echo_runtime loaded_state
     \<lparr>raw_question = Some ''why'', raw_context = Some '''',
      raw_threshold = None, raw_return_sentence_metrics = None\<rparr>
   = (loaded_state, [Process_call (ModelRef 0) ''why'' '''' 0.5 True],
      Internal_error (External ''empty context''))"
proof -
  let ?req = "\<lparr>rq_question = ''why'', rq_context = '''', rq_threshold = 0.5,
       rq_return_sentence_metrics = True\<rparr>"
  let ?raw = "\<lparr>raw_question = Some ''why'', raw_context = Some '''',
      raw_threshold = None, raw_return_sentence_metrics = None\<rparr>"
  have m: "model loaded_state = Some (ModelRef 0)"
    by (simp add: loaded_state_def)
  have p: "process echo_runtime (ModelRef 0) (rq_question ?req) (rq_context ?req)
             (rq_threshold ?req) (rq_return_sentence_metrics ?req)
           = Inl (External ''empty context'')"
    by (simp add: echo_runtime_def)
  have v: "HighlightRequest_init ?raw = Inr ?req"
    by (simp add: HighlightRequest_init_def)
  from highlight_propagates_exception [OF m p, of ?raw] v
  show ?thesis by simp
qed



text \<open>
  Claim C8. The cleanup clears \<^verbatim>\<open>_model\<close> whatever it held; running it again leaves the
  reference cleared; and after one or more cleanups \<^verbatim>\<open>model_loaded\<close> is false. The
  cleanup has no failing branch. (Each run appends its own log line, so the log grows.)
\<close>

theorem lifespan_cleanup_idempotent:
  "model (lifespan_cleanup st) = None \<and>
   model (lifespan_cleanup (lifespan_cleanup st)) = model (lifespan_cleanup st) \<and>
   \<not> model_loaded (snd (health rt ((lifespan_cleanup ^^ Suc n) st)))"
  by (simp add: cleanup_model health_def)

text \<open>
  Claim C9. Neither handler writes the process-wide state: after \<^verbatim>\<open>highlight\<close>,
  \<^verbatim>\<open>health\<close>, either route, or any sequence of requests, \<^verbatim>\<open>_model\<close>,
  \<^verbatim>\<open>app.state.model_path\<close> and the log are what they were.
\<close>

theorem handlers_leave_state_unchanged:
  "fst (highlight rt st req) = st \<and> fst (health rt st) = st \<and>
   fst (post_highlight rt st raw) = st \<and> fst (get_health rt st) = st \<and>
   fst (serve rt st rs) = st"
  by (simp add: highlight_frame post_highlight_frame get_health_frame serve_frame health_def)

text \<open>
  Claim C10. With no model held, any two requests get the same result from
  \<^verbatim>\<open>highlight\<close>: same state, no capability call, same response.
\<close>

theorem degraded_response_independent_of_request:
  assumes "model st = None"
  shows "highlight rt st req1 = highlight rt st req2"
  using assms by (simp add: highlight_def)

theorem degraded_response_independent_of_request_witness:
  "model initial_state = None \<and>
   highlight echo_runtime initial_state
     \<lparr>rq_question = ''why'', rq_context = ''Because. Or not.'', rq_threshold = 0.5,
      rq_return_sentence_metrics = True\<rparr>
   = highlight echo_runtime initial_state
     \<lparr>rq_question = '''', rq_context = ''Another text.'', rq_threshold = - 3,
      rq_return_sentence_metrics = False\<rparr>"
  using degraded_response_independent_of_request [of initial_state echo_runtime
     "\<lparr>rq_question = ''why'', rq_context = ''Because. Or not.'', rq_threshold = 0.5,
      rq_return_sentence_metrics = True\<rparr>"
     "\<lparr>rq_question = '''', rq_context = ''Another text.'', rq_threshold = - 3,
      rq_return_sentence_metrics = False\<rparr>"]
  by (simp add: initial_state_def)

end
